theory Spec2Isabelle
  imports Complex_Main "HOL-Library.Sublist"
begin

section \<open>JavaScript values used by MongoBinaryDownloadUrl.js\<close>

text \<open>
  A JavaScript string is a sequence of code units. It is modelled as a \<open>string\<close> whose
  characters are the code units below 256; the literals of the source are all ASCII.
  An optional field (\<open>release?: string\<close>, \<open>os?: ?OS\<close>, \<open>ssl?: boolean\<close>) is an
  \<open>option\<close>, with \<open>None\<close> for \<open>undefined\<close> and \<open>null\<close>.
\<close>

subsection \<open>Exceptions\<close>

text \<open>
  \<open>Error m\<close> is \<open>new Error(m)\<close> thrown by the source, \<open>TypeError\<close> is the exception
  the runtime raises when a property of \<open>undefined\<close> is read, and \<open>Rejected e\<close> is the
  rejection of the promise returned by \<open>getos\<close>, carrying the value the probe reported.
\<close>

datatype exn = Error string | TypeError | Rejected string

subsection \<open>Regular expressions of the source\<close>

text \<open>
  The regular expressions of the source are literal words, either unanchored with the flag
  \<open>i\<close> or anchored at the start of the input.  Under the flag \<open>i\<close> (without \<open>u\<close>) both
  sides are compared after \<open>Canonicalize\<close>, which maps a code unit to its upper case and
  never maps a code unit above 127 to one below 128.
\<close>

definition canonicalize :: "char \<Rightarrow> char" where
  "canonicalize c =
     (case map_of (zip ''abcdefghijklmnopqrstuvwxyz'' ''ABCDEFGHIJKLMNOPQRSTUVWXYZ'') c of
        Some u \<Rightarrow> u
      | None \<Rightarrow> c)"

fun regex_search :: "string \<Rightarrow> string \<Rightarrow> bool" where
  "regex_search p [] = (p = [])"
| "regex_search p (c # cs) = (prefix p (c # cs) \<or> regex_search p cs)"

definition test_i :: "string \<Rightarrow> string \<Rightarrow> bool" where
  \<comment> \<open>\<open>/p/i.test(s)\<close> for a literal word \<open>p\<close>\<close>
  "test_i p s = regex_search (map canonicalize p) (map canonicalize s)"

definition test_start :: "string \<Rightarrow> string \<Rightarrow> bool" where
  \<comment> \<open>\<open>/^p/.test(s)\<close> for a literal word \<open>p\<close>\<close>
  "test_start p s = prefix p s"

subsection \<open>Coercion and splitting\<close>

definition ToString :: "string option \<Rightarrow> string" where
  \<comment> \<open>the coercion applied by \<open>parseInt\<close> and \<open>parseFloat\<close> to their argument\<close>
  "ToString v = (case v of None \<Rightarrow> ''undefined'' | Some s \<Rightarrow> s)"

fun split :: "char \<Rightarrow> string \<Rightarrow> string list" where
  \<comment> \<open>\<open>s.split(c)\<close> for a one-character separator\<close>
  "split c [] = [[]]"
| "split c (x # xs) =
     (if x = c then [] # split c xs
      else (case split c xs of [] \<Rightarrow> [[x]] | y # ys \<Rightarrow> (x # y) # ys))"

definition index0 :: "'a list \<Rightarrow> 'a option" where
  \<comment> \<open>\<open>xs[0]\<close>, which is \<open>undefined\<close> on the empty array\<close>
  "index0 xs = (case xs of [] \<Rightarrow> None | x # _ \<Rightarrow> Some x)"

subsection \<open>Numbers\<close>

definition isStrWhiteSpaceChar :: "char \<Rightarrow> bool" where
  \<comment> \<open>TAB, LF, VT, FF, CR, SP and NBSP: the white space and line terminators below 256\<close>
  "isStrWhiteSpaceChar c =
     (c \<in> set [CHR 0x09, CHR 0x0A, CHR 0x0B, CHR 0x0C, CHR 0x0D, CHR 0x20, CHR 0xA0])"

definition digit_value :: "char \<Rightarrow> int option" where
  "digit_value c = map_of (zip ''0123456789'' [0, 1, 2, 3, 4, 5, 6, 7, 8, 9]) c"

definition is_digit :: "char \<Rightarrow> bool" where
  "is_digit c = (digit_value c \<noteq> None)"

fun decimal :: "int \<Rightarrow> string \<Rightarrow> int" where
  \<comment> \<open>the value of the leading decimal digits, continuing from an accumulator\<close>
  "decimal acc [] = acc"
| "decimal acc (c # cs) =
     (case digit_value c of Some d \<Rightarrow> decimal (10 * acc + d) cs | None \<Rightarrow> acc)"

definition strip_sign :: "string \<Rightarrow> bool \<times> string" where
  \<comment> \<open>an optional leading sign; the flag says whether it was \<open>-\<close>\<close>
  "strip_sign s =
     (case s of
        [] \<Rightarrow> (False, [])
      | c # cs \<Rightarrow> if c = CHR ''-'' then (True, cs) else if c = CHR ''+'' then (False, cs)
                 else (False, c # cs))"

text \<open>
  \<open>parseInt(s, 10)\<close>: leading white space is skipped, a sign is read, and the longest run
  of decimal digits is the result; with no digit the result is \<open>NaN\<close>, here \<open>None\<close>.
  The source only compares the result with integer constants below 20.  The integer the
  digits denote is kept exactly: the conversion to a double is monotone and exact on small
  integers, so every such comparison has the same outcome on the exact integer.
\<close>

definition parseInt10 :: "string \<Rightarrow> int option" where
  "parseInt10 inputString =
     (let (neg, S) = strip_sign (dropWhile isStrWhiteSpaceChar inputString);
          Z = takeWhile is_digit S
      in if Z = [] then None
         else Some (if neg then - decimal 0 Z else decimal 0 Z))"

text \<open>
  A Number is \<open>NaN\<close>, an infinity or a finite double, given by its rational value
  (the two zeros are not told apart: the source only compares numbers).
\<close>

datatype number = NaN | NegInfinity | Finite rat | PosInfinity

fun ge :: "number \<Rightarrow> number \<Rightarrow> bool" where
  \<comment> \<open>the operator \<open>>=\<close>: false as soon as one side is \<open>NaN\<close>\<close>
  "ge NaN y = False"
| "ge x NaN = False"
| "ge PosInfinity y = True"
| "ge x NegInfinity = True"
| "ge NegInfinity y = False"
| "ge (Finite a) PosInfinity = False"
| "ge (Finite a) (Finite b) = (b \<le> a)"

definition lt :: "number \<Rightarrow> number \<Rightarrow> bool" where
  \<comment> \<open>the operator \<open><\<close>\<close>
  "lt x y = (x \<noteq> NaN \<and> y \<noteq> NaN \<and> \<not> ge x y)"

definition pow2 :: "int \<Rightarrow> rat" where
  "pow2 e = (if 0 \<le> e then 2 ^ nat e else 1 / 2 ^ nat (- e))"

definition pow10 :: "int \<Rightarrow> rat" where
  "pow10 e = (if 0 \<le> e then 10 ^ nat e else 1 / 10 ^ nat (- e))"

function bitlen :: "int \<Rightarrow> int" where
  \<comment> \<open>the number of binary digits of a positive integer\<close>
  "bitlen n = (if n \<le> 0 then 0 else 1 + bitlen (n div 2))"
  by pat_completeness auto
termination
  by (relation "measure nat") auto

definition ilog2 :: "rat \<Rightarrow> int" where
  \<comment> \<open>for \<open>q > 0\<close>, the exponent \<open>e\<close> with \<open>2^e \<le> q < 2^(e+1)\<close>\<close>
  "ilog2 q =
     (let (a, b) = quotient_of q;
          e = bitlen a - bitlen b
      in if pow2 e \<le> q then e else e - 1)"

definition round_half_even :: "rat \<Rightarrow> int" where
  "round_half_even x =
     (let f = \<lfloor>x\<rfloor>; d = x - of_int f
      in if d < 1 / 2 then f else if 1 / 2 < d then f + 1
         else if even f then f else f + 1)"

definition to_double :: "rat \<Rightarrow> number" where
  \<comment> \<open>the Number value of a rational: binary64, round to nearest, ties to even\<close>
  "to_double q =
     (if q = 0 then Finite 0
      else
        let a = \<bar>q\<bar>;
            e = max (ilog2 a) (- 1022);
            ulp = pow2 (e - 52);
            v = of_int (round_half_even (a / ulp)) * ulp
        in if pow2 1024 \<le> v then (if q < 0 then NegInfinity else PosInfinity)
           else Finite (if q < 0 then - v else v))"

text \<open>
  \<open>parseFloat(s)\<close>: leading white space is skipped and the longest prefix that is a
  \<open>StrDecimalLiteral\<close> is read: a sign, then \<open>Infinity\<close> or digits with an optional
  fraction and an optional exponent (an exponent counts only when it has a digit).
  With no such prefix the result is \<open>NaN\<close>; otherwise it is the double nearest to the
  value of the prefix (for a literal of more than 20 significant digits the standard also
  allows a neighbouring choice; the correctly rounded one is taken here).
\<close>

definition parse_exponent :: "string \<Rightarrow> int" where
  "parse_exponent s =
     (case s of
        [] \<Rightarrow> 0
      | c # cs \<Rightarrow>
          if c = CHR ''e'' \<or> c = CHR ''E'' then
            (let (neg, ds) = strip_sign cs
             in if takeWhile is_digit ds = [] then 0
                else if neg then - decimal 0 ds else decimal 0 ds)
          else 0)"

definition parseFloat :: "string \<Rightarrow> number" where
  "parseFloat inputString =
     (let (neg, u) = strip_sign (dropWhile isStrWhiteSpaceChar inputString)
      in if prefix ''Infinity'' u then (if neg then NegInfinity else PosInfinity)
         else
           let ip = takeWhile is_digit u;
               r1 = dropWhile is_digit u;
               (fp, r2) = (case r1 of
                             [] \<Rightarrow> ([], r1)
                           | c # cs \<Rightarrow> if c = CHR ''.''
                                      then (takeWhile is_digit cs, dropWhile is_digit cs)
                                      else ([], r1))
           in if ip = [] \<and> fp = [] then NaN
              else
                let mv = rat_of_int (decimal 0 (ip @ fp))
                           * pow10 (parse_exponent r2 - int (length fp))
                in to_double (if neg then - mv else mv))"

section \<open>The OS descriptor and the per-distribution qualifiers\<close>

record OS =
  dist :: string
  release :: "string option"

definition getDebianVersionString :: "OS \<Rightarrow> string" where
  "getDebianVersionString os =
     (let name = ''debian'';
          rel = parseFloat (ToString (release os))
      in if ge rel (to_double (81 / 10)) then name @ ''81''
         else if ge rel (to_double (71 / 10)) then name @ ''71''
         else name)"

definition int_gt :: "int option \<Rightarrow> int \<Rightarrow> bool" where
  \<comment> \<open>\<open>x > k\<close> on a parsed integer: false on \<open>NaN\<close>\<close>
  "int_gt x k = (case x of None \<Rightarrow> False | Some n \<Rightarrow> k < n)"

definition int_lt :: "int option \<Rightarrow> int \<Rightarrow> bool" where
  "int_lt x k = (case x of None \<Rightarrow> False | Some n \<Rightarrow> n < k)"

definition int_ge :: "int option \<Rightarrow> int \<Rightarrow> bool" where
  "int_ge x k = (case x of None \<Rightarrow> False | Some n \<Rightarrow> k \<le> n)"

definition int_eq :: "int option \<Rightarrow> int \<Rightarrow> bool" where
  \<comment> \<open>\<open>x === k\<close>\<close>
  "int_eq x k = (case x of None \<Rightarrow> False | Some n \<Rightarrow> n = k)"

definition getFedoraVersionString :: "OS \<Rightarrow> string" where
  "getFedoraVersionString os =
     (let name = ''rhel'';
          fedoraVer = parseInt10 (ToString (release os))
      in if int_gt fedoraVer 18 then name @ ''70''
         else if int_lt fedoraVer 19 \<and> int_ge fedoraVer 12 then name @ ''62''
         else if int_lt fedoraVer 12 \<and> int_ge fedoraVer 6 then name @ ''55''
         else name)"

definition truthy :: "string option \<Rightarrow> bool" where
  \<comment> \<open>a string or \<open>undefined\<close> used as a condition\<close>
  "truthy v = (case v of None \<Rightarrow> False | Some s \<Rightarrow> s \<noteq> [])"

definition getRhelVersionString :: "OS \<Rightarrow> string" where
  "getRhelVersionString os =
     (let name = ''rhel''
      in case release os of
           None \<Rightarrow> name
         | Some rel \<Rightarrow>
             if rel \<noteq> [] then
               (if test_start ''7'' rel then name @ ''70''
                else if test_start ''6'' rel then name @ ''62''
                else if test_start ''5'' rel then name @ ''55''
                else name)
             else name)"

definition getElementaryOSVersionString :: "OS \<Rightarrow> string" where
  "getElementaryOSVersionString os = ''ubuntu1404''"

definition getMintVersionString :: "OS \<Rightarrow> string" where
  "getMintVersionString os = ''ubuntu1404''"

definition getLegacyVersionString :: "OS \<Rightarrow> string" where
  "getLegacyVersionString os = ''''"

definition match_11_12 :: "string \<Rightarrow> string list option" where
  \<comment> \<open>\<open>s.match(/(^11|^12)/)\<close>: the match and its group, or \<open>null\<close>\<close>
  "match_11_12 s =
     (if prefix ''11'' s then Some [''11'', ''11'']
      else if prefix ''12'' s then Some [''12'', ''12'']
      else None)"

definition getSuseVersionString :: "OS \<Rightarrow> exn + string" where
  "getSuseVersionString os =
     (case release os of
        None \<Rightarrow> Inl TypeError
      | Some r \<Rightarrow>
          (let matched = index0 (case match_11_12 r of Some m \<Rightarrow> map Some m | None \<Rightarrow> [None])
           in case matched of
                Some (Some rel) \<Rightarrow> if rel \<noteq> [] then Inr (''suse'' @ rel) else Inr ''''
              | _ \<Rightarrow> Inr ''''))"

definition getUbuntuVersionString :: "OS \<Rightarrow> string" where
  "getUbuntuVersionString os =
     (let name = ''ubuntu'';
          ubuntuVer = (if truthy (release os) then split CHR ''.'' (ToString (release os)) else []);
          majorVer = parseInt10 (ToString (index0 ubuntuVer))
      in if release os = Some ''12.04'' then name @ ''1204''
         else if release os = Some ''14.04'' then name @ ''1404''
         else if release os = Some ''14.10'' then name @ ''1410-clang''
         else if int_eq majorVer 14 then name @ ''1404''
         else if release os = Some ''16.04'' then name @ ''1604''
         else if int_eq majorVer 16 then name @ ''1604''
         else name @ ''1404'')"

section \<open>The host: console and OS probe\<close>

text \<open>
  The methods run on a host whose observable state is the list of warnings written with
  \<open>console.warn\<close> and the number of times the external probe \<open>getos\<close> has been invoked.
  What the probe answers is not decided by this module: a \<open>probe\<close> gives the outcome of
  its \<open>n\<close>-th invocation, a rejection or an OS descriptor.
\<close>

record world =
  console :: "string list"
  getos_calls :: nat

type_synonym probe = "nat \<Rightarrow> exn + OS"

definition warn :: "string \<Rightarrow> world \<Rightarrow> world" where
  "warn msg w = w\<lparr>console := console w @ [msg]\<rparr>"

definition getos :: "probe \<Rightarrow> world \<Rightarrow> (exn + OS) \<times> world" where
  "getos p w = (p (getos_calls w), w\<lparr>getos_calls := Suc (getos_calls w)\<rparr>)"

definition getLinuxOSVersionString :: "OS \<Rightarrow> world \<Rightarrow> (exn + string) \<times> world" where
  "getLinuxOSVersionString os w =
     (if test_i ''ubuntu'' (dist os) then (Inr (getUbuntuVersionString os), w)
      else if test_i ''elementary OS'' (dist os) then (Inr (getElementaryOSVersionString os), w)
      else if test_i ''suse'' (dist os) then (getSuseVersionString os, w)
      else if test_i ''rhel'' (dist os) \<or> test_i ''centos'' (dist os)
              \<or> test_i ''scientific'' (dist os)
        then (Inr (getRhelVersionString os), w)
      else if test_i ''fedora'' (dist os) then (Inr (getFedoraVersionString os), w)
      else if test_i ''debian'' (dist os) then (Inr (getDebianVersionString os), w)
      else if test_i ''mint'' (dist os) then (Inr (getMintVersionString os), w)
      else (Inr (getLegacyVersionString os),
            warn (''Unknown linux distro '' @ dist os
                    @ '', falling back to legacy MongoDB build'') w))"

section \<open>The resolver\<close>

definition DOWNLOAD_URI :: string where
  "DOWNLOAD_URI = ''https://downloads.mongodb.org''"

definition translatePlatform :: "string \<Rightarrow> OS option \<Rightarrow> exn + string" where
  "translatePlatform platform os =
     (if (case os of None \<Rightarrow> False | Some d \<Rightarrow> dist d = ''Raspbian'') then Inr ''src''
      else if platform = ''darwin'' then Inr ''osx''
      else if platform = ''win32'' then Inr ''win32''
      else if platform = ''linux'' then Inr ''linux''
      else if platform = ''elementary OS'' then Inr ''linux''
      else if platform = ''sunos'' then Inr ''sunos5''
      else Inl (Error (''unsupported OS '' @ platform)))"

definition translateArch :: "string \<Rightarrow> string \<Rightarrow> exn + string" where
  "translateArch arch mongoPlatform =
     (if arch = ''ia32'' then
        (if mongoPlatform = ''linux'' then Inr ''i686''
         else if mongoPlatform = ''win32'' then Inr ''i386''
         else Inl (Error ''unsupported architecture''))
      else if arch = ''x64'' then Inr ''x86_64''
      else Inl (Error ''unsupported architecture, ia32 and x64 are the only valid options''))"

record MongoBinaryDownloadUrlOpts =
  version :: string
  platform :: string
  arch :: string
  ssl :: "bool option"
  os :: "OS option"

record MongoBinaryDownloadUrl =
  platform :: string
  arch :: string
  ssl :: "bool option"
  version :: string
  os :: "OS option"

definition new_MongoBinaryDownloadUrl ::
    "MongoBinaryDownloadUrlOpts \<Rightarrow> exn + MongoBinaryDownloadUrl" where
  \<comment> \<open>the constructor: an exception of a translation leaves no instance\<close>
  "new_MongoBinaryDownloadUrl opts =
     (case translatePlatform (MongoBinaryDownloadUrlOpts.platform opts)
             (MongoBinaryDownloadUrlOpts.os opts) of
        Inl e \<Rightarrow> Inl e
      | Inr pf \<Rightarrow>
          (case translateArch (MongoBinaryDownloadUrlOpts.arch opts) pf of
             Inl e \<Rightarrow> Inl e
           | Inr a \<Rightarrow>
               Inr \<lparr>platform = pf, arch = a,
                    ssl = MongoBinaryDownloadUrlOpts.ssl opts,
                    version = MongoBinaryDownloadUrlOpts.version opts,
                    os = MongoBinaryDownloadUrlOpts.os opts\<rparr>))"

definition getArchiveType :: "MongoBinaryDownloadUrl \<Rightarrow> string" where
  "getArchiveType this =
     (if platform this = ''win32'' then ''zip''
      else if platform this = ''src'' then ''tar.gz''
      else ''tgz'')"

text \<open>
  A method returns its result or the exception it throws, together with the instance and
  the host as it leaves them: an assignment to \<open>this.os\<close> made before an exception stays.
\<close>

definition getArchiveName ::
    "probe \<Rightarrow> MongoBinaryDownloadUrl \<Rightarrow> world
       \<Rightarrow> (exn + string) \<times> MongoBinaryDownloadUrl \<times> world" where
  "getArchiveName p this w =
     (let name = ''mongodb-'' @ platform this;
          name = (if ssl this = Some True then name @ ''-ssl'' else name);
          name = (if platform this \<noteq> ''src'' then name @ ''-'' @ arch this else name);
          (osString, this, w) =
            (if platform this = ''linux'' \<and> arch this \<noteq> ''i686'' then
               (case os this of
                  Some d \<Rightarrow>
                    (let (q, w) = getLinuxOSVersionString d w
                     in (map_sum id Some q, this, w))
                | None \<Rightarrow>
                    (case getos p w of
                       (Inl e, w) \<Rightarrow> (Inl e, this, w)
                     | (Inr d, w) \<Rightarrow>
                         (let this = this\<lparr>os := Some d\<rparr>;
                              (q, w) = getLinuxOSVersionString d w
                          in (map_sum id Some q, this, w))))
             else (Inr None, this, w))
      in case osString of
           Inl e \<Rightarrow> (Inl e, this, w)
         | Inr osString \<Rightarrow>
             (let name = (if truthy osString then name @ ''-'' @ ToString osString else name);
                  name = (if platform this \<noteq> ''src''
                          then name @ ''-'' @ version this @ ''.'' @ getArchiveType this
                          else name @ ''-r'' @ version this @ ''.'' @ getArchiveType this)
              in (Inr name, this, w)))"

definition getDownloadUrl ::
    "probe \<Rightarrow> MongoBinaryDownloadUrl \<Rightarrow> world
       \<Rightarrow> (exn + string) \<times> MongoBinaryDownloadUrl \<times> world" where
  "getDownloadUrl p this w =
     (case getArchiveName p this w of
        (Inl e, this, w) \<Rightarrow> (Inl e, this, w)
      | (Inr archive, this, w) \<Rightarrow>
          (Inr (DOWNLOAD_URI @ ''/'' @ platform this @ ''/'' @ archive), this, w))"

section \<open>Suspension at \<open>await\<close> and overlapping calls\<close>

text \<open>
  \<open>getArchiveName\<close> and \<open>getDownloadUrl\<close> above are one call run to its end with no
  other call in between.  The source suspends a call at each \<open>await\<close>, and a client may
  start another call on the same instance before the first is resumed.  The two halves
  of \<open>getArchiveName\<close> around \<open>await this.getos()\<close> are therefore given on their own.

  \<open>getArchiveName_enter\<close> is the body up to the first \<open>await\<close>: it returns at once when
  no probe is needed, and otherwise it has invoked the probe (the executor of the promise
  runs inside the call of \<open>this.getos()\<close>) and is suspended, holding its local \<open>name\<close>
  and the number of the invocation it waits for.
\<close>

definition finish_name :: "MongoBinaryDownloadUrl \<Rightarrow> string \<Rightarrow> string option \<Rightarrow> string" where
  \<comment> \<open>the end of the body, from \<open>if (osString)\<close> on\<close>
  "finish_name this name osString =
     (let name = (if truthy osString then name @ ''-'' @ ToString osString else name);
          name = (if platform this \<noteq> ''src''
                  then name @ ''-'' @ version this @ ''.'' @ getArchiveType this
                  else name @ ''-r'' @ version this @ ''.'' @ getArchiveType this)
      in name)"

definition getArchiveName_enter ::
    "MongoBinaryDownloadUrl \<Rightarrow> world \<Rightarrow> ((exn + string) + string \<times> nat) \<times> world" where
  "getArchiveName_enter this w =
     (let name = ''mongodb-'' @ platform this;
          name = (if ssl this = Some True then name @ ''-ssl'' else name);
          name = (if platform this \<noteq> ''src'' then name @ ''-'' @ arch this else name)
      in if platform this = ''linux'' \<and> arch this \<noteq> ''i686'' then
           (case os this of
              Some d \<Rightarrow>
                (let (q, w) = getLinuxOSVersionString d w
                 in (Inl (map_sum id (\<lambda>s. finish_name this name (Some s)) q), w))
            | None \<Rightarrow> (Inr (name, getos_calls w), w\<lparr>getos_calls := Suc (getos_calls w)\<rparr>))
         else (Inl (Inr (finish_name this name None)), w))"

text \<open>
  \<open>getArchiveName_resume\<close> is the rest of the body, run when the promise of the probe is
  settled with an outcome: the assignment to \<open>this.os\<close> and everything after it.
\<close>

definition getArchiveName_resume ::
    "string \<Rightarrow> exn + OS \<Rightarrow> MongoBinaryDownloadUrl \<Rightarrow> world
       \<Rightarrow> (exn + string) \<times> MongoBinaryDownloadUrl \<times> world" where
  "getArchiveName_resume name outcome this w =
     (case outcome of
        Inl e \<Rightarrow> (Inl e, this, w)
      | Inr d \<Rightarrow>
          (let this = this\<lparr>os := Some d\<rparr>;
               (q, w) = getLinuxOSVersionString d w
           in (map_sum id (\<lambda>s. finish_name this name (Some s)) q, this, w)))"

definition getDownloadUrl_resume :: "exn + string \<Rightarrow> MongoBinaryDownloadUrl \<Rightarrow> exn + string" where
  \<comment> \<open>\<open>getDownloadUrl\<close> after \<open>await this.getArchiveName()\<close>\<close>
  "getDownloadUrl_resume r this =
     (case r of
        Inl e \<Rightarrow> Inl e
      | Inr archive \<Rightarrow> Inr (DOWNLOAD_URI @ ''/'' @ platform this @ ''/'' @ archive))"

text \<open>
  A suspended call waits for the probe (it remembers which method the client called) or,
  in \<open>getDownloadUrl\<close>, for the settled promise of \<open>getArchiveName\<close>.  An event starts a
  call or resumes one of the suspended calls, in any order.
\<close>

datatype call = ArchiveName | DownloadUrl

datatype task = ProbeWait call string nat | ArchiveWait "exn + string"

datatype event = Start call | Resume nat

record config =
  inst :: MongoBinaryDownloadUrl
  host :: world
  pending :: "task list"
  settled :: "(exn + string) list"

definition initial :: "MongoBinaryDownloadUrl \<Rightarrow> world \<Rightarrow> config" where
  "initial this w = \<lparr>inst = this, host = w, pending = [], settled = []\<rparr>"

definition start :: "call \<Rightarrow> config \<Rightarrow> config" where
  "start c cf =
     (case getArchiveName_enter (inst cf) (host cf) of
        (Inl r, w) \<Rightarrow>
          (case c of
             ArchiveName \<Rightarrow> cf\<lparr>host := w, settled := settled cf @ [r]\<rparr>
           | DownloadUrl \<Rightarrow> cf\<lparr>host := w, pending := pending cf @ [ArchiveWait r]\<rparr>)
      | (Inr (name, n), w) \<Rightarrow> cf\<lparr>host := w, pending := pending cf @ [ProbeWait c name n]\<rparr>)"

definition resume :: "probe \<Rightarrow> nat \<Rightarrow> config \<Rightarrow> config" where
  "resume p i cf =
     (if i < length (pending cf) then
        (let rest = take i (pending cf) @ drop (Suc i) (pending cf)
         in case pending cf ! i of
              ProbeWait c name n \<Rightarrow>
                (let (r, this, w) = getArchiveName_resume name (p n) (inst cf) (host cf)
                 in case c of
                      ArchiveName \<Rightarrow>
                        cf\<lparr>inst := this, host := w, pending := rest,
                           settled := settled cf @ [r]\<rparr>
                    | DownloadUrl \<Rightarrow>
                        cf\<lparr>inst := this, host := w, pending := rest @ [ArchiveWait r]\<rparr>)
            | ArchiveWait r \<Rightarrow>
                cf\<lparr>pending := rest,
                   settled := settled cf @ [getDownloadUrl_resume r (inst cf)]\<rparr>)
      else cf)"

fun exec :: "probe \<Rightarrow> event list \<Rightarrow> config \<Rightarrow> config" where
  "exec p [] cf = cf"
| "exec p (Start c # es) cf = exec p es (start c cf)"
| "exec p (Resume i # es) cf = exec p es (resume p i cf)"

text \<open>
  Calls run one after the other: each call is started and resumed to its end (at most
  two resumptions) before the next one is started.
\<close>

definition sequential :: "call list \<Rightarrow> event list" where
  "sequential cs = concat (map (\<lambda>c. [Start c, Resume 0, Resume 0]) cs)"

text \<open>The same, with each call taken as a whole.\<close>

definition invoke ::
    "probe \<Rightarrow> call \<Rightarrow> MongoBinaryDownloadUrl \<Rightarrow> world
       \<Rightarrow> (exn + string) \<times> MongoBinaryDownloadUrl \<times> world" where
  "invoke p c this w =
     (case c of ArchiveName \<Rightarrow> getArchiveName p this w | DownloadUrl \<Rightarrow> getDownloadUrl p this w)"

fun run ::
    "probe \<Rightarrow> call list \<Rightarrow> MongoBinaryDownloadUrl \<times> world \<Rightarrow> MongoBinaryDownloadUrl \<times> world"
  where
  "run p [] s = s"
| "run p (c # cs) (this, w) = run p cs (snd (invoke p c this w))"

text \<open>
  Three hosts: one whose probe is always rejected, one whose probe always answers, and
  one whose probe is rejected once and answers from then on.
\<close>

definition rejecting_probe :: probe where
  "rejecting_probe n = Inl (Rejected ''probe failed'')"

definition answering_probe :: "OS \<Rightarrow> probe" where
  "answering_probe d n = Inr d"

definition recovering_probe :: "OS \<Rightarrow> probe" where
  "recovering_probe d n = (if n = 0 then Inl (Rejected ''probe failed'') else Inr d)"

section \<open>Reference definitions following the specification\<close>

text \<open>
  The specification classifies a distribution name by a table of names, tested in order
  as case-insensitive substrings, the first match winning; a name that matches no entry
  is unknown.
\<close>

datatype distro = Ubuntu | ElementaryOS | Suse | Rhel | Fedora | Debian | Mint

definition distro_table :: "(string list \<times> distro) list" where
  "distro_table =
     [([''ubuntu''], Ubuntu), ([''elementary OS''], ElementaryOS), ([''suse''], Suse),
      ([''rhel'', ''centos'', ''scientific''], Rhel), ([''fedora''], Fedora),
      ([''debian''], Debian), ([''mint''], Mint)]"

definition classify :: "string \<Rightarrow> distro option" where
  "classify d = map_option snd (find (\<lambda>(names, k). \<exists>n \<in> set names. test_i n d) distro_table)"

text \<open>
  Fedora: a parsed release is outside the ranges above 18, 12 to 18 and 6 to 11; a
  release that does not parse is outside of them too.
\<close>

definition outside_fedora_ranges :: "int option \<Rightarrow> bool" where
  "outside_fedora_ranges x =
     (case x of
        None \<Rightarrow> True
      | Some n \<Rightarrow> \<not> 18 < n \<and> \<not> (12 \<le> n \<and> n \<le> 18) \<and> \<not> (6 \<le> n \<and> n \<le> 11))"

text \<open>
  Ubuntu: the major version is the part of the release before the first dot, parsed as
  an integer; the suffix follows the cases of the specification in their order.
\<close>

definition major_version :: "string option \<Rightarrow> int option" where
  "major_version rel =
     (case rel of None \<Rightarrow> None | Some r \<Rightarrow> parseInt10 (takeWhile (\<lambda>c. c \<noteq> CHR ''.'') r))"

definition ubuntu_suffix :: "string option \<Rightarrow> string" where
  "ubuntu_suffix rel =
     (if rel = Some ''12.04'' then ''1204''
      else if rel = Some ''14.04'' then ''1404''
      else if rel = Some ''14.10'' then ''1410-clang''
      else if major_version rel = Some 14 then ''1404''
      else if rel = Some ''16.04'' \<or> major_version rel = Some 16 then ''1604''
      else ''1404'')"

text \<open>The warning logged for an unknown distribution.\<close>

definition unknown_distro_warning :: "OS \<Rightarrow> string" where
  "unknown_distro_warning d =
     ''Unknown linux distro '' @ dist d @ '', falling back to legacy MongoDB build''"

text \<open>
  The archive name of the specification: its segments in order, for an instance and the
  Linux qualifier computed for it, if one was.  A qualifier is computed on \<open>linux\<close>
  unless the architecture is \<open>i686\<close>, from the OS descriptor the instance holds.
\<close>

definition computed_qualifier :: "MongoBinaryDownloadUrl \<Rightarrow> string option" where
  "computed_qualifier this =
     (if platform this = ''linux'' \<and> arch this \<noteq> ''i686'' then
        (case os this of
           None \<Rightarrow> None
         | Some d \<Rightarrow>
             (case fst (getLinuxOSVersionString d \<lparr>console = [], getos_calls = 0\<rparr>) of
                Inl e \<Rightarrow> None
              | Inr q \<Rightarrow> Some q))
      else None)"

definition archive_name_format :: "MongoBinaryDownloadUrl \<Rightarrow> string option \<Rightarrow> string" where
  "archive_name_format this qualifier =
     ''mongodb-'' @ platform this
       @ (if ssl this = Some True then ''-ssl'' else '''')
       @ (if platform this = ''src'' then '''' else ''-'' @ arch this)
       @ (case qualifier of None \<Rightarrow> '''' | Some q \<Rightarrow> if q = '''' then '''' else ''-'' @ q)
       @ (if platform this = ''src'' then ''-r'' @ version this @ ''.tar.gz''
          else ''-'' @ version this @ ''.''
                 @ (if platform this = ''win32'' then ''zip'' else ''tgz''))"

text \<open>
  Among the next \<open>k\<close> invocations of the probe, from the \<open>n\<close>-th on, the number of
  rejections before the first answer.
\<close>

fun rejections :: "probe \<Rightarrow> nat \<Rightarrow> nat \<Rightarrow> nat" where
  "rejections p n 0 = 0"
| "rejections p n (Suc k) =
     (case p n of Inl e \<Rightarrow> Suc (rejections p (Suc n) k) | Inr d \<Rightarrow> 0)"

section \<open>Properties\<close>

subsection \<open>Classification\<close>

text \<open>
  The chain of tests in \<open>getLinuxOSVersionString\<close> is the table of the specification.
\<close>

lemma classify_cases:
  "classify d =
     (if test_i ''ubuntu'' d then Some Ubuntu
      else if test_i ''elementary OS'' d then Some ElementaryOS
      else if test_i ''suse'' d then Some Suse
      else if test_i ''rhel'' d \<or> test_i ''centos'' d \<or> test_i ''scientific'' d then Some Rhel
      else if test_i ''fedora'' d then Some Fedora
      else if test_i ''debian'' d then Some Debian
      else if test_i ''mint'' d then Some Mint
      else None)"
  by (simp add: classify_def distro_table_def)

lemma getLinuxOSVersionString_classify:
  "getLinuxOSVersionString d w =
     (case classify (dist d) of
        Some Ubuntu \<Rightarrow> (Inr (getUbuntuVersionString d), w)
      | Some ElementaryOS \<Rightarrow> (Inr (getElementaryOSVersionString d), w)
      | Some Suse \<Rightarrow> (getSuseVersionString d, w)
      | Some Rhel \<Rightarrow> (Inr (getRhelVersionString d), w)
      | Some Fedora \<Rightarrow> (Inr (getFedoraVersionString d), w)
      | Some Debian \<Rightarrow> (Inr (getDebianVersionString d), w)
      | Some Mint \<Rightarrow> (Inr (getMintVersionString d), w)
      | None \<Rightarrow> (Inr (getLegacyVersionString d),
                  warn (''Unknown linux distro '' @ dist d
                          @ '', falling back to legacy MongoDB build'') w))"
  by (simp add: classify_cases getLinuxOSVersionString_def)

lemma getLinuxOSVersionString_calls:
  "getos_calls (snd (getLinuxOSVersionString d w)) = getos_calls w"
  by (simp add: getLinuxOSVersionString_def warn_def)

lemma getLinuxOSVersionString_fst:
  "fst (getLinuxOSVersionString d w) = fst (getLinuxOSVersionString d w')"
  by (simp add: getLinuxOSVersionString_def)

subsection \<open>Construction\<close>

text \<open>
  C7: a raw platform other than \<open>darwin\<close>, \<open>win32\<close>, \<open>linux\<close>, \<open>elementary OS\<close> and
  \<open>sunos\<close>, with an OS descriptor that is not Raspbian, makes the constructor throw the
  error \<open>unsupported OS\<close> followed by the offending platform; no instance exists, so
  no archive name and no URL can be asked for.
\<close>

theorem unsupported_platform_fails:
  assumes "MongoBinaryDownloadUrlOpts.platform opts
             \<notin> {''darwin'', ''win32'', ''linux'', ''elementary OS'', ''sunos''}"
      and "\<not> (\<exists>d. MongoBinaryDownloadUrlOpts.os opts = Some d \<and> dist d = ''Raspbian'')"
  shows "new_MongoBinaryDownloadUrl opts
           = Inl (Error (''unsupported OS '' @ MongoBinaryDownloadUrlOpts.platform opts))"
  using assms
  by (cases "MongoBinaryDownloadUrlOpts.os opts")
     (simp_all add: new_MongoBinaryDownloadUrl_def translatePlatform_def)

theorem unsupported_platform_fails_witness:
  "new_MongoBinaryDownloadUrl
     \<lparr>MongoBinaryDownloadUrlOpts.version = ''4.0.0'', platform = ''irix'', arch = ''x64'',
        ssl = None, os = Some \<lparr>dist = ''Debian'', release = Some ''9''\<rparr>\<rparr>
   = Inl (Error ''unsupported OS irix'')"
  using unsupported_platform_fails
    [of "\<lparr>MongoBinaryDownloadUrlOpts.version = ''4.0.0'', platform = ''irix'', arch = ''x64'',
           ssl = None, os = Some \<lparr>dist = ''Debian'', release = Some ''9''\<rparr>\<rparr>"]
  by simp

text \<open>
  Without Raspbian, \<open>ia32\<close> is accepted on \<open>linux\<close> and on \<open>win32\<close>.
\<close>

lemma ia32_accepted_without_raspbian:
  "new_MongoBinaryDownloadUrl
     \<lparr>MongoBinaryDownloadUrlOpts.version = v, platform = ''linux'', arch = ''ia32'',
        ssl = s, os = None\<rparr>
     = Inr \<lparr>platform = ''linux'', arch = ''i686'', ssl = s, version = v, os = None\<rparr>"
  "new_MongoBinaryDownloadUrl
     \<lparr>MongoBinaryDownloadUrlOpts.version = v, platform = ''win32'', arch = ''ia32'',
        ssl = s, os = None\<rparr>
     = Inr \<lparr>platform = ''win32'', arch = ''i386'', ssl = s, version = v, os = None\<rparr>"
  by (simp_all add: new_MongoBinaryDownloadUrl_def translatePlatform_def translateArch_def)

text \<open>
  C10: with an OS descriptor whose \<open>dist\<close> is exactly \<open>Raspbian\<close> and the raw
  architecture \<open>ia32\<close>, the constructor throws \<open>unsupported architecture\<close> whatever
  the raw platform is, \<open>linux\<close> and \<open>win32\<close> included: the platform has become
  \<open>src\<close> before the architecture is translated.
\<close>

theorem raspbian_ia32_fails:
  assumes "MongoBinaryDownloadUrlOpts.os opts = Some d" and "dist d = ''Raspbian''"
      and "MongoBinaryDownloadUrlOpts.arch opts = ''ia32''"
  shows "new_MongoBinaryDownloadUrl opts = Inl (Error ''unsupported architecture'')"
  using assms
  by (simp add: new_MongoBinaryDownloadUrl_def translatePlatform_def translateArch_def)

theorem raspbian_ia32_fails_witness:
  "new_MongoBinaryDownloadUrl
     \<lparr>MongoBinaryDownloadUrlOpts.version = ''4.0.0'', platform = ''linux'', arch = ''ia32'',
        ssl = None, os = Some \<lparr>dist = ''Raspbian'', release = None\<rparr>\<rparr>
     = Inl (Error ''unsupported architecture'')
   \<and> new_MongoBinaryDownloadUrl
     \<lparr>MongoBinaryDownloadUrlOpts.version = ''4.0.0'', platform = ''win32'', arch = ''ia32'',
        ssl = None, os = Some \<lparr>dist = ''Raspbian'', release = None\<rparr>\<rparr>
     = Inl (Error ''unsupported architecture'')"
  using raspbian_ia32_fails
    [of "\<lparr>MongoBinaryDownloadUrlOpts.version = ''4.0.0'', platform = ''linux'', arch = ''ia32'',
           ssl = None, os = Some \<lparr>dist = ''Raspbian'', release = None\<rparr>\<rparr>"
        "\<lparr>dist = ''Raspbian'', release = None\<rparr>"]
    raspbian_ia32_fails
    [of "\<lparr>MongoBinaryDownloadUrlOpts.version = ''4.0.0'', platform = ''win32'', arch = ''ia32'',
           ssl = None, os = Some \<lparr>dist = ''Raspbian'', release = None\<rparr>\<rparr>"
        "\<lparr>dist = ''Raspbian'', release = None\<rparr>"]
  by simp

subsection \<open>Ubuntu\<close>

lemma parseInt10_undefined: "parseInt10 ''undefined'' = None"
  by (simp add: parseInt10_def strip_sign_def isStrWhiteSpaceChar_def is_digit_def digit_value_def)

lemma index0_split: "index0 (split c s) = Some (takeWhile (\<lambda>x. x \<noteq> c) s)"
  by (induction s) (auto simp: index0_def split: list.splits)

lemma majorVer_eq:
  "parseInt10 (ToString (index0 (if truthy rel then split CHR ''.'' (ToString rel) else [])))
     = major_version rel"
proof (cases rel)
  case None
  then show ?thesis
    by (simp add: truthy_def index0_def major_version_def ToString_def parseInt10_undefined)
next
  case (Some r)
  show ?thesis
  proof (cases "r = []")
    case True
    have "parseInt10 [] = None"
      by (simp add: parseInt10_def strip_sign_def)
    with True Some show ?thesis
      by (simp add: truthy_def index0_def major_version_def ToString_def parseInt10_undefined)
  next
    case False
    with Some show ?thesis
      by (simp add: truthy_def major_version_def ToString_def index0_split)
  qed
qed

lemma int_eq_iff: "int_eq x k \<longleftrightarrow> x = Some k"
  by (cases x) (auto simp: int_eq_def)

lemma getUbuntuVersionString_eq:
  "getUbuntuVersionString d = ''ubuntu'' @ ubuntu_suffix (release d)"
  unfolding getUbuntuVersionString_def Let_def majorVer_eq int_eq_iff ubuntu_suffix_def
  by simp

text \<open>
  C3: for an OS descriptor classified as Ubuntu the qualifier is \<open>ubuntu\<close> followed by
  \<open>1204\<close> for the release \<open>12.04\<close>, \<open>1404\<close> for \<open>14.04\<close>, \<open>1410-clang\<close> for
  \<open>14.10\<close>, \<open>1404\<close> when the part before the first dot parses to 14, \<open>1604\<close> for
  \<open>16.04\<close> or a major version 16, and \<open>1404\<close> for every other or missing release;
  it is never the empty string.
\<close>

theorem ubuntu_qualifier:
  assumes "classify (dist d) = Some Ubuntu"
  shows "getLinuxOSVersionString d w = (Inr (''ubuntu'' @ ubuntu_suffix (release d)), w)
         \<and> ''ubuntu'' @ ubuntu_suffix (release d) \<noteq> ''''"
  using assms by (simp add: getLinuxOSVersionString_classify getUbuntuVersionString_eq)

theorem ubuntu_qualifier_witness:
  "classify ''Ubuntu'' = Some Ubuntu
   \<and> getLinuxOSVersionString \<lparr>dist = ''Ubuntu'', release = Some ''16.10''\<rparr>
        \<lparr>console = [], getos_calls = 0\<rparr>
      = (Inr ''ubuntu1604'', \<lparr>console = [], getos_calls = 0\<rparr>)"
proof -
  have c: "classify (dist \<lparr>dist = ''Ubuntu'', release = Some ''16.10''\<rparr>) = Some Ubuntu"
    by (simp add: classify_cases test_i_def canonicalize_def)
  have s: "ubuntu_suffix (Some ''16.10'') = ''1604''"
    by (simp add: ubuntu_suffix_def major_version_def parseInt10_def strip_sign_def
        isStrWhiteSpaceChar_def is_digit_def digit_value_def)
  from ubuntu_qualifier [OF c, of "\<lparr>console = [], getos_calls = 0\<rparr>"] c s
  show ?thesis by simp
qed

subsection \<open>RHEL, CentOS, Scientific and Fedora\<close>

lemma getRhelVersionString_bare:
  assumes "release d = None \<or> (\<exists>r. release d = Some r \<and> \<not> prefix ''7'' r \<and> \<not> prefix ''6'' r \<and> \<not> prefix ''5'' r)"
  shows "getRhelVersionString d = ''rhel''"
  using assms by (auto simp: getRhelVersionString_def test_start_def Let_def)

lemma getFedoraVersionString_bare:
  assumes "outside_fedora_ranges (parseInt10 (ToString (release d)))"
  shows "getFedoraVersionString d = ''rhel''"
  using assms
  by (auto simp: getFedoraVersionString_def outside_fedora_ranges_def int_gt_def int_lt_def
      int_ge_def Let_def split: option.splits)

text \<open>
  C1, as the code has it: for an OS descriptor classified as RHEL, CentOS or Scientific
  whose release is missing or begins with none of 7, 6 and 5, and for an OS descriptor
  classified as Fedora whose release parses to no integer or to an integer outside the
  ranges above 18, 12 to 18 and 6 to 11, the qualifier is the bare string \<open>rhel\<close>.
\<close>

theorem rhel_fedora_fallback_is_bare_rhel:
  "(classify (dist d) = Some Rhel
      \<and> (release d = None
          \<or> (\<exists>r. release d = Some r \<and> \<not> prefix ''7'' r \<and> \<not> prefix ''6'' r \<and> \<not> prefix ''5'' r))
     \<longrightarrow> getLinuxOSVersionString d w = (Inr ''rhel'', w))
   \<and> (classify (dist d) = Some Fedora
        \<and> outside_fedora_ranges (parseInt10 (ToString (release d)))
     \<longrightarrow> getLinuxOSVersionString d w = (Inr ''rhel'', w))"
  by (simp add: getLinuxOSVersionString_classify getRhelVersionString_bare
      getFedoraVersionString_bare)

theorem rhel_fedora_fallback_is_bare_rhel_witness:
  "classify ''CentOS'' = Some Rhel
   \<and> getLinuxOSVersionString \<lparr>dist = ''CentOS'', release = Some ''8.2''\<rparr>
        \<lparr>console = [], getos_calls = 0\<rparr>
      = (Inr ''rhel'', \<lparr>console = [], getos_calls = 0\<rparr>)
   \<and> classify ''Fedora'' = Some Fedora
   \<and> outside_fedora_ranges (parseInt10 ''5'')
   \<and> getLinuxOSVersionString \<lparr>dist = ''Fedora'', release = Some ''5''\<rparr>
        \<lparr>console = [], getos_calls = 0\<rparr>
      = (Inr ''rhel'', \<lparr>console = [], getos_calls = 0\<rparr>)"
proof -
  have c1: "classify ''CentOS'' = Some Rhel"
    by (simp add: classify_cases test_i_def canonicalize_def)
  have c2: "classify ''Fedora'' = Some Fedora"
    by (simp add: classify_cases test_i_def canonicalize_def)
  have p: "parseInt10 ''5'' = Some 5"
    by (simp add: parseInt10_def strip_sign_def isStrWhiteSpaceChar_def is_digit_def
        digit_value_def)
  have o: "outside_fedora_ranges (parseInt10 ''5'')"
    by (simp add: p outside_fedora_ranges_def)
  from rhel_fedora_fallback_is_bare_rhel
         [of "\<lparr>dist = ''CentOS'', release = Some ''8.2''\<rparr>" "\<lparr>console = [], getos_calls = 0\<rparr>"]
       rhel_fedora_fallback_is_bare_rhel
         [of "\<lparr>dist = ''Fedora'', release = Some ''5''\<rparr>" "\<lparr>console = [], getos_calls = 0\<rparr>"]
       c1 c2 o
  show ?thesis by (simp add: ToString_def)
qed

text \<open>
  C1 as stated asks for the empty string.  A CentOS descriptor without release and a
  Fedora descriptor of release 5 both get \<open>rhel\<close>, which is not empty.
\<close>

theorem rhel_fedora_fallback_not_empty:
  "classify (dist \<lparr>dist = ''CentOS'', release = None\<rparr>) = Some Rhel
   \<and> release \<lparr>dist = ''CentOS'', release = None\<rparr> = None
   \<and> fst (getLinuxOSVersionString \<lparr>dist = ''CentOS'', release = None\<rparr>
             \<lparr>console = [], getos_calls = 0\<rparr>) \<noteq> Inr ''''
   \<and> classify (dist \<lparr>dist = ''Fedora'', release = Some ''5''\<rparr>) = Some Fedora
   \<and> parseInt10 (ToString (release \<lparr>dist = ''Fedora'', release = Some ''5''\<rparr>)) = Some 5
   \<and> fst (getLinuxOSVersionString \<lparr>dist = ''Fedora'', release = Some ''5''\<rparr>
             \<lparr>console = [], getos_calls = 0\<rparr>) \<noteq> Inr ''''"
  by (simp add: getLinuxOSVersionString_def getRhelVersionString_def
      getFedoraVersionString_def int_gt_def int_lt_def int_ge_def
      classify_cases test_i_def canonicalize_def ToString_def
      parseInt10_def strip_sign_def isStrWhiteSpaceChar_def is_digit_def digit_value_def)

subsection \<open>Suse\<close>

text \<open>
  C2: the claim asks that a Suse descriptor without release gets the empty qualifier.
  \<open>getSuseVersionString\<close> reads \<open>os.release.match\<close> without a test of \<open>os.release\<close>,
  so on such a descriptor it throws a \<open>TypeError\<close>, and so does \<open>getArchiveName\<close>.
\<close>

theorem suse_missing_release_throws:
  "classify (dist \<lparr>dist = ''SUSE Linux'', release = None\<rparr>) = Some Suse
   \<and> getLinuxOSVersionString \<lparr>dist = ''SUSE Linux'', release = None\<rparr>
        \<lparr>console = [], getos_calls = 0\<rparr>
      = (Inl TypeError, \<lparr>console = [], getos_calls = 0\<rparr>)
   \<and> new_MongoBinaryDownloadUrl
        \<lparr>MongoBinaryDownloadUrlOpts.version = ''4.0.0'', platform = ''linux'', arch = ''x64'',
           ssl = None, os = Some \<lparr>dist = ''SUSE Linux'', release = None\<rparr>\<rparr>
      = Inr \<lparr>platform = ''linux'', arch = ''x86_64'', ssl = None, version = ''4.0.0'',
              os = Some \<lparr>dist = ''SUSE Linux'', release = None\<rparr>\<rparr>
   \<and> fst (getArchiveName rejecting_probe
             \<lparr>platform = ''linux'', arch = ''x86_64'', ssl = None, version = ''4.0.0'',
                os = Some \<lparr>dist = ''SUSE Linux'', release = None\<rparr>\<rparr>
             \<lparr>console = [], getos_calls = 0\<rparr>) = Inl TypeError"
  by (simp add: getLinuxOSVersionString_def getSuseVersionString_def getArchiveName_def
      new_MongoBinaryDownloadUrl_def translatePlatform_def translateArch_def
      classify_cases test_i_def canonicalize_def)

text \<open>
  With a release present the Suse qualifier is as the specification says.
\<close>

lemma suse_release_present:
  assumes "classify (dist d) = Some Suse" and "release d = Some r"
  shows "getLinuxOSVersionString d w =
           (Inr (if prefix ''11'' r then ''suse11'' else if prefix ''12'' r then ''suse12''
                 else ''''), w)"
  using assms
  by (simp add: getLinuxOSVersionString_classify getSuseVersionString_def match_11_12_def
      index0_def)

subsection \<open>Debian\<close>

lemma parseFloat_undefined: "parseFloat ''undefined'' = NaN"
  by (simp add: parseFloat_def strip_sign_def isStrWhiteSpaceChar_def is_digit_def digit_value_def)

lemma to_double_8_1: "to_double (81 / 10) = Finite (4559894622712627 / 562949953421312)"
  by code_simp

lemma to_double_7_1: "to_double (71 / 10) = Finite (3996944669291315 / 562949953421312)"
  by code_simp

text \<open>
  C4: for an OS descriptor classified as Debian the qualifier is \<open>debian81\<close> when the
  release parses to a number at least 8.1, \<open>debian71\<close> when it parses to a number at
  least 7.1 and below 8.1, and the bare, non-empty \<open>debian\<close> otherwise, also when the
  release is missing or parses to \<open>NaN\<close>.  The numbers 8.1 and 7.1 are the doubles the
  literals of the source denote.
\<close>

theorem debian_qualifier:
  assumes "classify (dist d) = Some Debian"
  shows "\<exists>q. getLinuxOSVersionString d w = (Inr q, w) \<and> q \<noteq> ''''
           \<and> (ge (parseFloat (ToString (release d))) (to_double (81 / 10))
                \<longrightarrow> q = ''debian81'')
           \<and> (ge (parseFloat (ToString (release d))) (to_double (71 / 10))
                \<and> lt (parseFloat (ToString (release d))) (to_double (81 / 10))
                \<longrightarrow> q = ''debian71'')
           \<and> (\<not> ge (parseFloat (ToString (release d))) (to_double (81 / 10))
                \<and> \<not> ge (parseFloat (ToString (release d))) (to_double (71 / 10))
                \<longrightarrow> q = ''debian'')
           \<and> (release d = None \<or> parseFloat (ToString (release d)) = NaN
                \<longrightarrow> q = ''debian'')"
proof -
  have "release d = None \<Longrightarrow> parseFloat (ToString (release d)) = NaN"
    by (simp add: ToString_def parseFloat_undefined)
  then show ?thesis
    using assms
    by (auto simp: getLinuxOSVersionString_classify getDebianVersionString_def Let_def lt_def)
qed

theorem debian_qualifier_witness:
  "classify ''Debian'' = Some Debian
   \<and> ge (parseFloat ''7.5'') (to_double (71 / 10))
   \<and> lt (parseFloat ''7.5'') (to_double (81 / 10))
   \<and> getLinuxOSVersionString \<lparr>dist = ''Debian'', release = Some ''7.5''\<rparr>
        \<lparr>console = [], getos_calls = 0\<rparr>
      = (Inr ''debian71'', \<lparr>console = [], getos_calls = 0\<rparr>)"
proof -
  have c: "classify (dist \<lparr>dist = ''Debian'', release = Some ''7.5''\<rparr>) = Some Debian"
    by (simp add: classify_cases test_i_def canonicalize_def)
  have p: "parseFloat ''7.5'' = Finite (15 / 2)"
    by code_simp
  have g: "ge (parseFloat ''7.5'') (to_double (71 / 10))"
    by (simp add: p to_double_7_1)
  have l: "lt (parseFloat ''7.5'') (to_double (81 / 10))"
    by (simp add: p to_double_8_1 lt_def)
  from debian_qualifier [OF c, of "\<lparr>console = [], getos_calls = 0\<rparr>"] c g l
  show ?thesis by (auto simp: ToString_def)
qed

subsection \<open>The archive name\<close>

lemma getArchiveName_other:
  assumes "\<not> (platform this = ''linux'' \<and> arch this \<noteq> ''i686'')"
  shows "getArchiveName p this w = (Inr (archive_name_format this None), this, w)"
  using assms
  by (auto simp: getArchiveName_def archive_name_format_def getArchiveType_def truthy_def)

lemma getArchiveName_linux:
  assumes "platform this = ''linux''" and "arch this \<noteq> ''i686''" and "os this = Some d"
  shows "getArchiveName p this w =
           (case getLinuxOSVersionString d w of
              (Inl e, w') \<Rightarrow> (Inl e, this, w')
            | (Inr q, w') \<Rightarrow> (Inr (archive_name_format this (Some q)), this, w'))"
  using assms
  by (auto simp: getArchiveName_def archive_name_format_def getArchiveType_def truthy_def
      ToString_def split: prod.splits sum.splits)

lemma getArchiveName_probe:
  assumes "platform this = ''linux''" and "arch this \<noteq> ''i686''" and "os this = None"
  shows "getArchiveName p this w =
           (case getos p w of
              (Inl e, w') \<Rightarrow> (Inl e, this, w')
            | (Inr d, w') \<Rightarrow> getArchiveName p (this\<lparr>os := Some d\<rparr>) w')"
  using assms
  by (auto simp: getArchiveName_def split: prod.splits sum.splits)

lemma getArchiveName_result:
  assumes "getArchiveName p this w = (res, this', w')"
  shows "(\<exists>e. res = Inl e) \<or> res = Inr (archive_name_format this (computed_qualifier this'))"
proof (cases "platform this = ''linux'' \<and> arch this \<noteq> ''i686''")
  case False
  with assms show ?thesis
    by (auto simp: getArchiveName_other computed_qualifier_def)
next
  case True
  have known: "res = Inr (archive_name_format t (computed_qualifier t')) \<or> (\<exists>e. res = Inl e)"
    if "getArchiveName p t v = (res, t', v')" and "os t = Some d"
      and "platform t = ''linux''" and "arch t \<noteq> ''i686''" for t t' v v' d
    using that getLinuxOSVersionString_fst [of d v "\<lparr>console = [], getos_calls = 0\<rparr>"]
    by (auto simp: getArchiveName_linux computed_qualifier_def
        split: prod.splits sum.splits)
  show ?thesis
  proof (cases "os this")
    case (Some d)
    with known [OF assms Some] True show ?thesis by auto
  next
    case None
    show ?thesis
    proof (cases "p (getos_calls w)")
      case (Inl e)
      with assms True None show ?thesis
        by (auto simp: getArchiveName_probe getos_def)
    next
      case (Inr d)
      let ?t = "this\<lparr>os := Some d\<rparr>"
      from assms True None Inr
      have "getArchiveName p ?t (w\<lparr>getos_calls := Suc (getos_calls w)\<rparr>) = (res, this', w')"
        by (simp add: getArchiveName_probe getos_def)
      from known [OF this] True
      have "res = Inr (archive_name_format ?t (computed_qualifier this')) \<or> (\<exists>e. res = Inl e)"
        by simp
      then show ?thesis
        by (auto simp: archive_name_format_def)
    qed
  qed
qed

lemma getArchiveName_state:
  assumes "getArchiveName p this w = (res, this', w')"
  shows "platform this' = platform this \<and> arch this' = arch this \<and> ssl this' = ssl this
         \<and> version this' = version this
         \<and> (if platform this = ''linux'' \<and> arch this \<noteq> ''i686'' \<and> os this = None
             then getos_calls w' = Suc (getos_calls w)
                  \<and> (case p (getos_calls w) of
                        Inl e \<Rightarrow> os this' = None \<and> res = Inl e
                      | Inr d \<Rightarrow> os this' = Some d)
             else getos_calls w' = getos_calls w \<and> os this' = os this)"
proof (cases "platform this = ''linux'' \<and> arch this \<noteq> ''i686''")
  case False
  with assms show ?thesis
    by (auto simp: getArchiveName_other)
next
  case True
  have known: "t' = t \<and> getos_calls v' = getos_calls v"
    if "getArchiveName p t v = (res, t', v')" and "os t = Some d"
      and "platform t = ''linux''" and "arch t \<noteq> ''i686''" for t t' v v' d
    using that getLinuxOSVersionString_calls [of d v]
    by (auto simp: getArchiveName_linux split: prod.splits sum.splits)
  show ?thesis
  proof (cases "os this")
    case (Some d)
    with known [OF assms Some] True show ?thesis by auto
  next
    case None
    show ?thesis
    proof (cases "p (getos_calls w)")
      case (Inl e)
      with assms True None show ?thesis
        by (auto simp: getArchiveName_probe getos_def)
    next
      case (Inr d)
      let ?t = "this\<lparr>os := Some d\<rparr>"
      from assms True None Inr
      have "getArchiveName p ?t (w\<lparr>getos_calls := Suc (getos_calls w)\<rparr>) = (res, this', w')"
        by (simp add: getArchiveName_probe getos_def)
      from known [OF this] True
      have "this' = ?t \<and> getos_calls w' = Suc (getos_calls w)"
        by simp
      with True None Inr show ?thesis
        by simp
    qed
  qed
qed

text \<open>
  \<open>getArchiveName\<close> returns a name unless the probe is rejected or a Suse descriptor
  has no release.
\<close>

lemma getArchiveName_returns:
  assumes "platform this = ''linux'' \<and> arch this \<noteq> ''i686'' \<longrightarrow>
             (\<exists>d. (os this = Some d \<or> os this = None \<and> p (getos_calls w) = Inr d)
                  \<and> \<not> (classify (dist d) = Some Suse \<and> release d = None))"
  shows "\<exists>name this' w'. getArchiveName p this w = (Inr name, this', w')"
proof (cases "platform this = ''linux'' \<and> arch this \<noteq> ''i686''")
  case False
  then show ?thesis
    by (auto simp: getArchiveName_other)
next
  case True
  have ok: "\<exists>q v'. getLinuxOSVersionString d v = (Inr q, v')"
    if "\<not> (classify (dist d) = Some Suse \<and> release d = None)" for d v
    using that
    by (auto simp: getLinuxOSVersionString_classify getSuseVersionString_def index0_def
        match_11_12_def split: option.splits distro.splits)
  from True assms obtain d
    where d: "os this = Some d \<or> os this = None \<and> p (getos_calls w) = Inr d"
      and n: "\<not> (classify (dist d) = Some Suse \<and> release d = None)"
    by auto
  from d show ?thesis
  proof
    assume s: "os this = Some d"
    from ok [OF n, of w] obtain q v' where "getLinuxOSVersionString d w = (Inr q, v')"
      by auto
    with True s show ?thesis
      by (simp add: getArchiveName_linux)
  next
    assume s: "os this = None \<and> p (getos_calls w) = Inr d"
    from ok [OF n, of "w\<lparr>getos_calls := Suc (getos_calls w)\<rparr>"] obtain q v'
      where "getLinuxOSVersionString d (w\<lparr>getos_calls := Suc (getos_calls w)\<rparr>) = (Inr q, v')"
      by auto
    with True s show ?thesis
      by (simp add: getArchiveName_probe getos_def getArchiveName_linux)
  qed
qed

text \<open>
  C5: on a constructed resolver, the archive name is \<open>mongodb-\<close> and the platform, then
  \<open>-ssl\<close> iff the ssl flag is set, then \<open>-\<close> and the architecture unless the platform
  is \<open>src\<close>, then \<open>-\<close> and the qualifier iff a Linux qualifier was computed and is not
  empty, then \<open>-r\<close>, the version and \<open>.tar.gz\<close> on \<open>src\<close>, and otherwise \<open>-\<close>, the
  version and \<open>.zip\<close> on \<open>win32\<close> or \<open>.tgz\<close> elsewhere.
\<close>

theorem archive_name_shape:
  assumes "new_MongoBinaryDownloadUrl opts = Inr this"
      and "getArchiveName p this w = (Inr name, this', w')"
  shows "name = archive_name_format this (computed_qualifier this')"
  using getArchiveName_result [OF assms(2)] by auto

theorem archive_name_shape_witness:
  "new_MongoBinaryDownloadUrl
     \<lparr>MongoBinaryDownloadUrlOpts.version = ''4.0.0'', platform = ''linux'', arch = ''x64'',
        ssl = Some True, os = Some \<lparr>dist = ''Ubuntu'', release = Some ''16.04''\<rparr>\<rparr>
     = Inr \<lparr>platform = ''linux'', arch = ''x86_64'', ssl = Some True, version = ''4.0.0'',
             os = Some \<lparr>dist = ''Ubuntu'', release = Some ''16.04''\<rparr>\<rparr>
   \<and> getArchiveName rejecting_probe
        \<lparr>platform = ''linux'', arch = ''x86_64'', ssl = Some True, version = ''4.0.0'',
           os = Some \<lparr>dist = ''Ubuntu'', release = Some ''16.04''\<rparr>\<rparr>
        \<lparr>console = [], getos_calls = 0\<rparr>
     = (Inr ''mongodb-linux-ssl-x86_64-ubuntu1604-4.0.0.tgz'',
        \<lparr>platform = ''linux'', arch = ''x86_64'', ssl = Some True, version = ''4.0.0'',
           os = Some \<lparr>dist = ''Ubuntu'', release = Some ''16.04''\<rparr>\<rparr>,
        \<lparr>console = [], getos_calls = 0\<rparr>)
   \<and> archive_name_format
        \<lparr>platform = ''linux'', arch = ''x86_64'', ssl = Some True, version = ''4.0.0'',
           os = Some \<lparr>dist = ''Ubuntu'', release = Some ''16.04''\<rparr>\<rparr>
        (computed_qualifier
           \<lparr>platform = ''linux'', arch = ''x86_64'', ssl = Some True, version = ''4.0.0'',
              os = Some \<lparr>dist = ''Ubuntu'', release = Some ''16.04''\<rparr>\<rparr>)
     = ''mongodb-linux-ssl-x86_64-ubuntu1604-4.0.0.tgz''"
proof -
  let ?d = "\<lparr>dist = ''Ubuntu'', release = Some ''16.04''\<rparr>"
  let ?opts = "\<lparr>MongoBinaryDownloadUrlOpts.version = ''4.0.0'', platform = ''linux'',
                 arch = ''x64'', ssl = Some True, os = Some ?d\<rparr>"
  let ?r = "\<lparr>platform = ''linux'', arch = ''x86_64'', ssl = Some True,
                 version = ''4.0.0'', os = Some ?d\<rparr>"
  let ?w = "\<lparr>console = [], getos_calls = 0\<rparr>"
  have n: "new_MongoBinaryDownloadUrl ?opts = Inr ?r"
    by (simp add: new_MongoBinaryDownloadUrl_def translatePlatform_def translateArch_def)
  have q: "getLinuxOSVersionString ?d ?w = (Inr ''ubuntu1604'', ?w)"
    by (simp add: getLinuxOSVersionString_def getUbuntuVersionString_eq ubuntu_suffix_def
        test_i_def canonicalize_def major_version_def parseInt10_def strip_sign_def
        isStrWhiteSpaceChar_def is_digit_def digit_value_def)
  have g: "getArchiveName rejecting_probe ?r ?w
             = (Inr ''mongodb-linux-ssl-x86_64-ubuntu1604-4.0.0.tgz'', ?r, ?w)"
    by (simp add: getArchiveName_linux q archive_name_format_def)
  from archive_name_shape [OF n g] n g show ?thesis
    by simp
qed

text \<open>
  C9: for an OS descriptor whose distribution name matches no entry of the table, the
  qualifier computation does not fail: it logs one warning and yields the empty
  qualifier of the legacy fallback, and the archive name of a Linux resolver is produced
  with no qualifier segment.
\<close>

theorem unknown_distro_uses_legacy_fallback:
  assumes "classify (dist d) = None"
  shows "getLinuxOSVersionString d w = (Inr '''', warn (unknown_distro_warning d) w)
         \<and> (platform this = ''linux'' \<and> arch this \<noteq> ''i686''
              \<and> (os this = Some d \<or> os this = None \<and> p (getos_calls w) = Inr d)
            \<longrightarrow> fst (getArchiveName p this w)
                  = Inr (''mongodb-linux'' @ (if ssl this = Some True then ''-ssl'' else '''')
                          @ ''-'' @ arch this @ ''-'' @ version this @ ''.tgz'')
                \<and> os (fst (snd (getArchiveName p this w))) = Some d
                \<and> console (snd (snd (getArchiveName p this w)))
                    = console w @ [unknown_distro_warning d])"
proof -
  have q: "getLinuxOSVersionString d v = (Inr '''', warn (unknown_distro_warning d) v)" for v
    using assms
    by (simp add: getLinuxOSVersionString_classify getLegacyVersionString_def
        unknown_distro_warning_def)
  show ?thesis
    by (auto simp: q getArchiveName_linux getArchiveName_probe getos_def
        archive_name_format_def warn_def)
qed

theorem unknown_distro_uses_legacy_fallback_witness:
  "classify ''Arch Linux'' = None
   \<and> getArchiveName rejecting_probe
        \<lparr>platform = ''linux'', arch = ''x86_64'', ssl = None, version = ''4.0.0'',
           os = Some \<lparr>dist = ''Arch Linux'', release = None\<rparr>\<rparr>
        \<lparr>console = [], getos_calls = 0\<rparr>
     = (Inr ''mongodb-linux-x86_64-4.0.0.tgz'',
        \<lparr>platform = ''linux'', arch = ''x86_64'', ssl = None, version = ''4.0.0'',
           os = Some \<lparr>dist = ''Arch Linux'', release = None\<rparr>\<rparr>,
        \<lparr>console = [''Unknown linux distro Arch Linux, falling back to legacy MongoDB build''],
           getos_calls = 0\<rparr>)"
proof -
  let ?d = "\<lparr>dist = ''Arch Linux'', release = None\<rparr>"
  let ?r = "\<lparr>platform = ''linux'', arch = ''x86_64'', ssl = None, version = ''4.0.0'',
              os = Some ?d\<rparr>"
  let ?w = "\<lparr>console = [], getos_calls = 0\<rparr>"
  have c: "classify (dist ?d) = None"
    by (simp add: classify_cases test_i_def canonicalize_def)
  obtain res r' w' where g: "getArchiveName rejecting_probe ?r ?w = (res, r', w')"
    by (cases "getArchiveName rejecting_probe ?r ?w") auto
  from getArchiveName_state [OF g]
  have s: "r' = ?r" and n: "getos_calls w' = 0"
    by simp_all
  from unknown_distro_uses_legacy_fallback [OF c, of ?w ?r rejecting_probe] g
  have "res = Inr ''mongodb-linux-x86_64-4.0.0.tgz''"
    and "console w' = [''Unknown linux distro Arch Linux, falling back to legacy MongoDB build'']"
    by (simp_all add: unknown_distro_warning_def)
  with s n g c show ?thesis
    by (cases w') simp
qed

subsection \<open>The download URL\<close>

lemma getDownloadUrl_eq:
  "getDownloadUrl p this w =
     (case getArchiveName p this w of
        (Inl e, s) \<Rightarrow> (Inl e, s)
      | (Inr archive, s) \<Rightarrow>
          (Inr (''https://downloads.mongodb.org/'' @ platform this @ ''/'' @ archive), s))"
proof -
  obtain res this' w' where g: "getArchiveName p this w = (res, this', w')"
    by (cases "getArchiveName p this w") auto
  from getArchiveName_state [OF g] have "platform this' = platform this"
    by simp
  with g show ?thesis
    by (simp add: getDownloadUrl_def DOWNLOAD_URI_def split: sum.splits)
qed

text \<open>
  C6: on a constructed resolver, the download URL is \<open>https://downloads.mongodb.org/\<close>,
  the normalized platform, \<open>/\<close> and the archive name that \<open>getArchiveName\<close> produces in
  the same state; an exception of \<open>getArchiveName\<close> is passed on.
\<close>

theorem download_url_shape:
  assumes "new_MongoBinaryDownloadUrl opts = Inr this"
  shows "getDownloadUrl p this w =
           (case getArchiveName p this w of
              (Inl e, s) \<Rightarrow> (Inl e, s)
            | (Inr archive, s) \<Rightarrow>
                (Inr (''https://downloads.mongodb.org/'' @ platform this @ ''/'' @ archive), s))"
  by (rule getDownloadUrl_eq)

theorem download_url_shape_witness:
  "new_MongoBinaryDownloadUrl
     \<lparr>MongoBinaryDownloadUrlOpts.version = ''4.0.0'', platform = ''darwin'', arch = ''x64'',
        ssl = None, os = None\<rparr>
     = Inr \<lparr>platform = ''osx'', arch = ''x86_64'', ssl = None, version = ''4.0.0'', os = None\<rparr>
   \<and> getDownloadUrl rejecting_probe
        \<lparr>platform = ''osx'', arch = ''x86_64'', ssl = None, version = ''4.0.0'', os = None\<rparr>
        \<lparr>console = [], getos_calls = 0\<rparr>
     = (Inr ''https://downloads.mongodb.org/osx/mongodb-osx-x86_64-4.0.0.tgz'',
        \<lparr>platform = ''osx'', arch = ''x86_64'', ssl = None, version = ''4.0.0'', os = None\<rparr>,
        \<lparr>console = [], getos_calls = 0\<rparr>)"
proof -
  let ?opts = "\<lparr>MongoBinaryDownloadUrlOpts.version = ''4.0.0'', platform = ''darwin'',
                 arch = ''x64'', ssl = None, os = None\<rparr>"
  let ?r = "\<lparr>platform = ''osx'', arch = ''x86_64'', ssl = None,
                 version = ''4.0.0'', os = None\<rparr>"
  let ?w = "\<lparr>console = [], getos_calls = 0\<rparr>"
  have n: "new_MongoBinaryDownloadUrl ?opts = Inr ?r"
    by (simp add: new_MongoBinaryDownloadUrl_def translatePlatform_def translateArch_def)
  have g: "getArchiveName rejecting_probe ?r ?w
             = (Inr ''mongodb-osx-x86_64-4.0.0.tgz'', ?r, ?w)"
    by (simp add: getArchiveName_other archive_name_format_def)
  from download_url_shape [OF n, of rejecting_probe ?w] n g show ?thesis
    by simp
qed

subsection \<open>The state of an instance over the calls of a client\<close>

lemma constructor_fields:
  assumes "new_MongoBinaryDownloadUrl opts = Inr this"
  shows "translatePlatform (MongoBinaryDownloadUrlOpts.platform opts)
            (MongoBinaryDownloadUrlOpts.os opts) = Inr (platform this)
         \<and> translateArch (MongoBinaryDownloadUrlOpts.arch opts) (platform this) = Inr (arch this)
         \<and> ssl this = MongoBinaryDownloadUrlOpts.ssl opts
         \<and> version this = MongoBinaryDownloadUrlOpts.version opts
         \<and> os this = MongoBinaryDownloadUrlOpts.os opts"
  using assms
  by (auto simp: new_MongoBinaryDownloadUrl_def split: sum.splits)

lemma invoke_state:
  assumes "invoke p c this w = (res, this', w')"
  shows "platform this' = platform this \<and> arch this' = arch this \<and> ssl this' = ssl this
         \<and> version this' = version this
         \<and> (if platform this = ''linux'' \<and> arch this \<noteq> ''i686'' \<and> os this = None
             then getos_calls w' = Suc (getos_calls w)
                  \<and> (case p (getos_calls w) of
                        Inl e \<Rightarrow> os this' = None
                      | Inr d \<Rightarrow> os this' = Some d)
             else getos_calls w' = getos_calls w \<and> os this' = os this)"
proof (cases c)
  case ArchiveName
  with assms getArchiveName_state [of p this w res this' w'] show ?thesis
    by (auto simp: invoke_def split: sum.splits)
next
  case DownloadUrl
  obtain r where g: "getArchiveName p this w = (r, this', w')"
    using assms DownloadUrl
    by (cases "getArchiveName p this w") (auto simp: invoke_def getDownloadUrl_eq split: sum.splits)
  from getArchiveName_state [OF g] show ?thesis
    by (auto split: sum.splits)
qed

text \<open>
  A call run as a whole is its first half followed at once by its second half, and a
  sequential schedule of events is the sequence of the calls taken as wholes.
\<close>

lemma getArchiveName_phases:
  "getArchiveName p this w =
     (case getArchiveName_enter this w of
        (Inl r, w') \<Rightarrow> (r, this, w')
      | (Inr (name, n), w') \<Rightarrow> getArchiveName_resume name (p n) this w')"
proof (cases "platform this = ''linux'' \<and> arch this \<noteq> ''i686''")
  case False
  then show ?thesis
    by (auto simp: getArchiveName_def getArchiveName_enter_def finish_name_def Let_def)
next
  case True
  show ?thesis
  proof (cases "os this")
    case (Some d)
    obtain q v where q: "getLinuxOSVersionString d w = (q, v)"
      by (cases "getLinuxOSVersionString d w") auto
    with True Some show ?thesis
      by (cases q)
         (simp_all add: getArchiveName_def getArchiveName_enter_def finish_name_def Let_def)
  next
    case None
    let ?w = "w\<lparr>getos_calls := Suc (getos_calls w)\<rparr>"
    show ?thesis
    proof (cases "p (getos_calls w)")
      case (Inl e)
      with True None show ?thesis
        by (simp add: getArchiveName_def getArchiveName_enter_def getArchiveName_resume_def
            getos_def Let_def)
    next
      case (Inr d)
      obtain q v where q: "getLinuxOSVersionString d ?w = (q, v)"
        by (cases "getLinuxOSVersionString d ?w") auto
      with True None Inr show ?thesis
        by (cases q)
           (simp_all add: getArchiveName_def getArchiveName_enter_def
              getArchiveName_resume_def finish_name_def getos_def Let_def)
    qed
  qed
qed

lemma getDownloadUrl_phases:
  "getDownloadUrl p this w =
     (case getArchiveName p this w of
        (r, this', w') \<Rightarrow> (getDownloadUrl_resume r this', this', w'))"
  by (auto simp: getDownloadUrl_def getDownloadUrl_resume_def split: prod.splits sum.splits)

lemma exec_append: "exec p (es @ fs) cf = exec p fs (exec p es cf)"
  by (induction p es cf rule: exec.induct) simp_all

lemma exec_one_call:
  assumes "pending cf = []"
  shows "exec p [Start c, Resume 0, Resume 0] cf
           = (case invoke p c (inst cf) (host cf) of
                (r, this, w) \<Rightarrow>
                  cf\<lparr>inst := this, host := w, settled := settled cf @ [r]\<rparr>)"
proof (cases "getArchiveName_enter (inst cf) (host cf)")
  case (Pair x w')
  show ?thesis
  proof (cases x)
    case (Inl r)
    with Pair assms show ?thesis
      by (cases c)
         (auto simp: start_def resume_def invoke_def getDownloadUrl_phases
            getArchiveName_phases)
  next
    case (Inr s)
    obtain name n where s: "s = (name, n)"
      by (cases s) auto
    obtain r this w'' where g: "getArchiveName_resume name (p n) (inst cf) w' = (r, this, w'')"
      by (cases "getArchiveName_resume name (p n) (inst cf) w'") auto
    with Pair Inr s assms show ?thesis
      by (cases c)
         (auto simp: start_def resume_def invoke_def getDownloadUrl_phases
            getArchiveName_phases)
  qed
qed

lemma exec_sequential:
  assumes "pending cf = []"
  shows "inst (exec p (sequential cs) cf) = fst (run p cs (inst cf, host cf))
         \<and> host (exec p (sequential cs) cf) = snd (run p cs (inst cf, host cf))
         \<and> pending (exec p (sequential cs) cf) = []
         \<and> length (settled (exec p (sequential cs) cf)) = length (settled cf) + length cs"
  using assms
proof (induction cs arbitrary: cf)
  case Nil
  then show ?case
    by (simp add: sequential_def)
next
  case (Cons c cs)
  obtain r this w where i: "invoke p c (inst cf) (host cf) = (r, this, w)"
    by (cases "invoke p c (inst cf) (host cf)") auto
  let ?cf = "cf\<lparr>inst := this, host := w, settled := settled cf @ [r]\<rparr>"
  have one: "exec p [Start c, Resume 0, Resume 0] cf = ?cf"
    using exec_one_call [OF Cons.prems, of p c] i by simp
  have seq: "sequential (c # cs) = [Start c, Resume 0, Resume 0] @ sequential cs"
    by (simp add: sequential_def)
  have "pending ?cf = []"
    using Cons.prems by simp
  from Cons.IH [OF this] show ?case
    unfolding seq exec_append one using i by simp
qed

lemma getArchiveName_resume_fields:
  assumes "getArchiveName_resume name outcome this w = (r, this', w')"
  shows "platform this' = platform this \<and> arch this' = arch this \<and> ssl this' = ssl this
         \<and> version this' = version this"
  using assms
  by (auto simp: getArchiveName_resume_def Let_def split: sum.splits prod.splits)

lemma start_fields: "inst (start c cf) = inst cf"
  by (auto simp: start_def split: prod.splits sum.splits call.splits)

lemma resume_fields:
  "platform (inst (resume p i cf)) = platform (inst cf)
   \<and> arch (inst (resume p i cf)) = arch (inst cf)
   \<and> ssl (inst (resume p i cf)) = ssl (inst cf)
   \<and> version (inst (resume p i cf)) = version (inst cf)"
proof (cases "i < length (pending cf)")
  case False
  then show ?thesis
    by (simp add: resume_def)
next
  case True
  show ?thesis
  proof (cases "pending cf ! i")
    case (ArchiveWait r)
    with True show ?thesis
      by (simp add: resume_def Let_def)
  next
    case (ProbeWait c name n)
    obtain r this w where g: "getArchiveName_resume name (p n) (inst cf) (host cf) = (r, this, w)"
      by (cases "getArchiveName_resume name (p n) (inst cf) (host cf)") auto
    from getArchiveName_resume_fields [OF g] True ProbeWait g show ?thesis
      by (cases c) (simp_all add: resume_def Let_def)
  qed
qed

lemma exec_fields:
  "platform (inst (exec p es cf)) = platform (inst cf)
   \<and> arch (inst (exec p es cf)) = arch (inst cf)
   \<and> ssl (inst (exec p es cf)) = ssl (inst cf)
   \<and> version (inst (exec p es cf)) = version (inst cf)"
proof (induction p es cf rule: exec.induct)
  case (1 p cf)
  show ?case by simp
next
  case (2 p c es cf)
  then show ?case by (simp add: start_fields)
next
  case (3 p i es cf)
  with resume_fields [of p i cf] show ?case by simp
qed

lemma run_exact:
  assumes "run p cs (this, w) = (this', w')"
  shows "if platform this = ''linux'' \<and> arch this \<noteq> ''i686'' \<and> os this = None
         then (if rejections p (getos_calls w) (length cs) = length cs
               then getos_calls w' = getos_calls w + length cs \<and> os this' = None
               else getos_calls w' = Suc (getos_calls w + rejections p (getos_calls w) (length cs))
                    \<and> (\<exists>d. p (getos_calls w + rejections p (getos_calls w) (length cs)) = Inr d
                            \<and> os this' = Some d))
         else getos_calls w' = getos_calls w \<and> os this' = os this"
  using assms
proof (induction cs arbitrary: this w)
  case Nil
  then show ?case by simp
next
  case (Cons c cs)
  obtain res t1 w1 where inv: "invoke p c this w = (res, t1, w1)"
    by (cases "invoke p c this w") auto
  with Cons.prems have r: "run p cs (t1, w1) = (this', w')"
    by simp
  note ih = Cons.IH [OF r]
  note st = invoke_state [OF inv]
  show ?case
  proof (cases "platform this = ''linux'' \<and> arch this \<noteq> ''i686'' \<and> os this = None")
    case False
    with st ih show ?thesis
      by auto
  next
    case True
    with st have c1: "getos_calls w1 = Suc (getos_calls w)"
      and pa: "platform t1 = ''linux''" "arch t1 \<noteq> ''i686''"
      by simp_all
    show ?thesis
    proof (cases "p (getos_calls w)")
      case (Inl e)
      with st True have "os t1 = None"
        by simp
      with ih [unfolded c1] pa True Inl show ?thesis
        by (auto split: if_splits)
    next
      case (Inr d)
      with st True have "os t1 = Some d"
        by simp
      with ih [unfolded c1] True Inr show ?thesis
        by (auto split: if_splits)
    qed
  qed
qed

text \<open>
  C8, as the code has it.  Under every schedule of starts and resumptions, overlapping
  ones included, the platform, the architecture, the ssl flag and the version of an
  instance stay as the constructor computed them from the options, so the OS descriptor
  slot is the only field written later.  When the calls are run one after the other,
  the probe is invoked exactly once by each call that finds the slot undefined on a
  \<open>linux\<close> resolver other than \<open>i686\<close>, and by no other call: a rejected probe leaves
  the slot undefined and the next call invokes the probe again; the first answer fills
  the slot, and from then on the slot keeps that answer and the probe is not invoked.
  As this holds for every number of calls, the slot changes at most once.
\<close>

theorem resolver_state_evolution:
  assumes "new_MongoBinaryDownloadUrl opts = Inr this"
  shows "(translatePlatform (MongoBinaryDownloadUrlOpts.platform opts)
             (MongoBinaryDownloadUrlOpts.os opts)
            = Inr (platform (inst (exec p es (initial this w))))
          \<and> translateArch (MongoBinaryDownloadUrlOpts.arch opts)
                (platform (inst (exec p es (initial this w))))
              = Inr (arch (inst (exec p es (initial this w))))
          \<and> ssl (inst (exec p es (initial this w))) = MongoBinaryDownloadUrlOpts.ssl opts
          \<and> version (inst (exec p es (initial this w)))
              = MongoBinaryDownloadUrlOpts.version opts)
         \<and> (let cf = exec p (sequential cs) (initial this w);
                 k = rejections p (getos_calls w) (length cs)
             in pending cf = [] \<and> length (settled cf) = length cs
                \<and> (if platform this = ''linux'' \<and> arch this \<noteq> ''i686''
                       \<and> MongoBinaryDownloadUrlOpts.os opts = None
                    then (if k = length cs
                          then getos_calls (host cf) = getos_calls w + length cs
                               \<and> os (inst cf) = None
                          else getos_calls (host cf) = getos_calls w + k + 1
                               \<and> (\<exists>d. p (getos_calls w + k) = Inr d \<and> os (inst cf) = Some d))
                    else getos_calls (host cf) = getos_calls w
                         \<and> os (inst cf) = MongoBinaryDownloadUrlOpts.os opts))"
proof -
  note c = constructor_fields [OF assms]
  have fields: "platform (inst (exec p es (initial this w))) = platform this
                \<and> arch (inst (exec p es (initial this w))) = arch this
                \<and> ssl (inst (exec p es (initial this w))) = ssl this
                \<and> version (inst (exec p es (initial this w))) = version this"
    using exec_fields [of p es "initial this w"] by (simp add: initial_def)
  obtain this' w' where r: "run p cs (this, w) = (this', w')"
    by (cases "run p cs (this, w)") auto
  have seq: "inst (exec p (sequential cs) (initial this w)) = this'
             \<and> host (exec p (sequential cs) (initial this w)) = w'
             \<and> pending (exec p (sequential cs) (initial this w)) = []
             \<and> length (settled (exec p (sequential cs) (initial this w))) = length cs"
    using exec_sequential [of "initial this w" p cs] r by (simp add: initial_def)
  from run_exact [OF r] c have
    "if platform this = ''linux'' \<and> arch this \<noteq> ''i686''
          \<and> MongoBinaryDownloadUrlOpts.os opts = None
     then (if rejections p (getos_calls w) (length cs) = length cs
           then getos_calls w' = getos_calls w + length cs \<and> os this' = None
           else getos_calls w' = getos_calls w + rejections p (getos_calls w) (length cs) + 1
                \<and> (\<exists>d. p (getos_calls w + rejections p (getos_calls w) (length cs)) = Inr d
                        \<and> os this' = Some d))
     else getos_calls w' = getos_calls w \<and> os this' = MongoBinaryDownloadUrlOpts.os opts"
    by (auto split: if_splits)
  with seq fields c show ?thesis
    by (simp add: Let_def)
qed

theorem resolver_state_evolution_witness:
  "new_MongoBinaryDownloadUrl
     \<lparr>MongoBinaryDownloadUrlOpts.version = ''4.0.0'', platform = ''linux'', arch = ''x64'',
        ssl = None, os = None\<rparr>
     = Inr \<lparr>platform = ''linux'', arch = ''x86_64'', ssl = None, version = ''4.0.0'',
             os = None\<rparr>
   \<and> version (inst (exec (recovering_probe \<lparr>dist = ''Ubuntu'', release = Some ''16.04''\<rparr>)
                       [Start ArchiveName, Start DownloadUrl, Resume 1, Resume 0, Resume 0]
                       (initial \<lparr>platform = ''linux'', arch = ''x86_64'', ssl = None,
                                  version = ''4.0.0'', os = None\<rparr>
                                \<lparr>console = [], getos_calls = 0\<rparr>))) = ''4.0.0''
   \<and> getos_calls
        (host (exec (recovering_probe \<lparr>dist = ''Ubuntu'', release = Some ''16.04''\<rparr>)
                 (sequential [ArchiveName, DownloadUrl, ArchiveName])
                 (initial \<lparr>platform = ''linux'', arch = ''x86_64'', ssl = None,
                            version = ''4.0.0'', os = None\<rparr>
                          \<lparr>console = [], getos_calls = 0\<rparr>))) = 2
   \<and> os (inst (exec (recovering_probe \<lparr>dist = ''Ubuntu'', release = Some ''16.04''\<rparr>)
                  (sequential [ArchiveName, DownloadUrl, ArchiveName])
                  (initial \<lparr>platform = ''linux'', arch = ''x86_64'', ssl = None,
                             version = ''4.0.0'', os = None\<rparr>
                           \<lparr>console = [], getos_calls = 0\<rparr>)))
       = Some \<lparr>dist = ''Ubuntu'', release = Some ''16.04''\<rparr>"
proof -
  let ?d = "\<lparr>dist = ''Ubuntu'', release = Some ''16.04''\<rparr>"
  let ?opts = "\<lparr>MongoBinaryDownloadUrlOpts.version = ''4.0.0'', platform = ''linux'',
                 arch = ''x64'', ssl = None, os = None\<rparr>"
  let ?r = "\<lparr>platform = ''linux'', arch = ''x86_64'', ssl = None, version = ''4.0.0'',
              os = None\<rparr>"
  let ?w = "\<lparr>console = [], getos_calls = 0\<rparr>"
  have n: "new_MongoBinaryDownloadUrl ?opts = Inr ?r"
    by (simp add: new_MongoBinaryDownloadUrl_def translatePlatform_def translateArch_def)
  have k: "rejections (recovering_probe ?d) 0 (Suc (Suc (Suc 0))) = Suc 0"
    by (simp add: recovering_probe_def)
  have p: "recovering_probe ?d (Suc 0) = Inr ?d"
    by (simp add: recovering_probe_def)
  from resolver_state_evolution
         [OF n, of "recovering_probe ?d"
            "[Start ArchiveName, Start DownloadUrl, Resume 1, Resume 0, Resume 0]" ?w
            "[ArchiveName, DownloadUrl, ArchiveName]"]
       n k p
  show ?thesis
    by (simp add: Let_def)
qed

text \<open>
  C8 as stated asks for at most one invocation of the probe per instance.  A rejected
  probe leaves the slot undefined, and the next call invokes the probe again: two calls
  of \<open>getArchiveName\<close>, one after the other, on a host whose probe is rejected invoke
  it twice.
\<close>

theorem probe_invoked_again_after_rejection:
  "new_MongoBinaryDownloadUrl
     \<lparr>MongoBinaryDownloadUrlOpts.version = ''4.0.0'', platform = ''linux'', arch = ''x64'',
        ssl = None, os = None\<rparr>
     = Inr \<lparr>platform = ''linux'', arch = ''x86_64'', ssl = None, version = ''4.0.0'',
             os = None\<rparr>
   \<and> getos_calls
        (host (exec rejecting_probe (sequential [ArchiveName, ArchiveName])
                 (initial \<lparr>platform = ''linux'', arch = ''x86_64'', ssl = None,
                            version = ''4.0.0'', os = None\<rparr>
                          \<lparr>console = [], getos_calls = 0\<rparr>))) = 2"
  by (simp add: new_MongoBinaryDownloadUrl_def translatePlatform_def translateArch_def
      sequential_def initial_def start_def resume_def getArchiveName_enter_def
      getArchiveName_resume_def rejecting_probe_def)

text \<open>
  Two calls that overlap both find the slot undefined before either is resumed: each
  invokes the probe, although the first invocation is answered.
\<close>

lemma overlapping_calls_probe_twice:
  "exec (answering_probe \<lparr>dist = ''Ubuntu'', release = Some ''16.04''\<rparr>)
     [Start ArchiveName, Start ArchiveName, Resume 0, Resume 0]
     (initial \<lparr>platform = ''linux'', arch = ''x86_64'', ssl = None, version = ''4.0.0'',
                os = None\<rparr>
              \<lparr>console = [], getos_calls = 0\<rparr>)
   = \<lparr>inst = \<lparr>platform = ''linux'', arch = ''x86_64'', ssl = None, version = ''4.0.0'',
               os = Some \<lparr>dist = ''Ubuntu'', release = Some ''16.04''\<rparr>\<rparr>,
       host = \<lparr>console = [], getos_calls = 2\<rparr>,
       pending = [],
       settled = [Inr ''mongodb-linux-x86_64-ubuntu1604-4.0.0.tgz'',
                  Inr ''mongodb-linux-x86_64-ubuntu1604-4.0.0.tgz'']\<rparr>"
proof -
  have q: "getLinuxOSVersionString \<lparr>dist = ''Ubuntu'', release = Some ''16.04''\<rparr> v
             = (Inr ''ubuntu1604'', v)" for v
    by (simp add: getLinuxOSVersionString_def getUbuntuVersionString_eq ubuntu_suffix_def
        test_i_def canonicalize_def major_version_def parseInt10_def strip_sign_def
        isStrWhiteSpaceChar_def is_digit_def digit_value_def)
  show ?thesis
    by (simp add: initial_def start_def resume_def getArchiveName_enter_def
        getArchiveName_resume_def answering_probe_def q finish_name_def truthy_def
        ToString_def getArchiveType_def)
qed

end
